theory Spec2Isabelle
  imports Main "HOL-Library.Sublist"
begin

section \<open>Python string operations used by the pipeline\<close>

text \<open>
  A Python \<open>str\<close> is modelled as a \<open>string\<close>: a list of characters, each one a
  code point below 256.  The predicates below are Python's on that range:
  \<open>str.isspace\<close> (also the class \<open>\s\<close> of \<open>re\<close> and what \<open>str.strip()\<close> removes),
  the word class \<open>\w\<close> of \<open>re\<close> and \<open>str.lower\<close>.
\<close>

definition py_isspace :: "char \<Rightarrow> bool" where
  "py_isspace c = (let n = (of_char c :: nat) in
     (9 \<le> n \<and> n \<le> 13) \<or> (28 \<le> n \<and> n \<le> 32) \<or> n = 133 \<or> n = 160)"

definition py_isword :: "char \<Rightarrow> bool" where
  "py_isword c = (let n = (of_char c :: nat) in
     (48 \<le> n \<and> n \<le> 57) \<or> (65 \<le> n \<and> n \<le> 90) \<or> n = 95 \<or> (97 \<le> n \<and> n \<le> 122)
     \<or> n = 170 \<or> n = 178 \<or> n = 179 \<or> n = 181 \<or> n = 185 \<or> n = 186
     \<or> (188 \<le> n \<and> n \<le> 190)
     \<or> (192 \<le> n \<and> n \<le> 214) \<or> (216 \<le> n \<and> n \<le> 246) \<or> 248 \<le> n)"

definition py_lower_char :: "char \<Rightarrow> char" where
  "py_lower_char c = (let n = (of_char c :: nat) in
     if (65 \<le> n \<and> n \<le> 90) \<or> (192 \<le> n \<and> n \<le> 222 \<and> n \<noteq> 215)
     then char_of (n + 32) else c)"

definition lower :: "string \<Rightarrow> string" where
  "lower s = map py_lower_char s"

text \<open>\<open>s.strip()\<close>: leading and trailing whitespace removed.\<close>

definition strip :: "string \<Rightarrow> string" where
  "strip s = rev (dropWhile py_isspace (rev (dropWhile py_isspace s)))"

text \<open>
  \<open>s.split(sep)\<close> for a non-empty separator \<open>c # sep\<close>: a left-to-right scan for
  non-overlapping occurrences; \<open>cur\<close> is the piece read so far.  The result is never
  the empty list.
\<close>

fun split_from :: "char \<Rightarrow> string \<Rightarrow> string \<Rightarrow> string \<Rightarrow> string list" where
  "split_from c sep cur [] = [cur]"
| "split_from c sep cur (x # xs) =
     (if prefix (c # sep) (x # xs)
      then cur # split_from c sep [] (drop (length sep) xs)
      else split_from c sep (cur @ [x]) xs)"

definition split :: "string \<Rightarrow> string \<Rightarrow> string list" where
  "split s sep = (case sep of [] \<Rightarrow> [] | c # sep' \<Rightarrow> split_from c sep' [] s)"

text \<open>\<open>sub in s\<close>: \<open>sub\<close> occurs in \<open>s\<close> as a contiguous substring.\<close>

fun contains :: "string \<Rightarrow> string \<Rightarrow> bool" where
  "contains sub [] = (sub = [])"
| "contains sub (x # xs) = (prefix sub (x # xs) \<or> contains sub xs)"

section \<open>Batch classifier: \<open>BedrockClient.classify_comments\<close>\<close>

text \<open>
  What the gateway call and the decoding of its body leave in \<open>content\<close>: either an
  exception is raised inside the \<open>try\<close>, or \<open>response_body.get('content', [{}])\<close>
  is a list of blocks, each with an optional \<open>type\<close> and an optional \<open>text\<close>.
\<close>

record content_block =
  block_type :: "string option"
  block_text :: "string option"

datatype invoke_outcome = Raises string | Replies "content_block list"

text \<open>The client state the classifier touches: the attribute \<open>inferences\<close>.\<close>

record bedrock_client =
  inferences :: "string list"

text \<open>
  One response block of the loop body: \<open>lines = response.strip().split('\n')\<close>, the
  class read off \<open>lines[0].lower().strip()\<close>, the inference off \<open>lines[1]\<close>.
  \<open>None\<close> stands for the \<open>IndexError\<close> of \<open>lines[0]\<close> on an empty list.
\<close>

definition parse_block :: "string \<Rightarrow> (string \<times> string) option" where
  "parse_block response =
     (case split (strip response) ''\<newline>'' of
        [] \<Rightarrow> None
      | l0 # rest \<Rightarrow>
          (let classification_line = strip (lower l0) in
           if contains ''code_standards'' classification_line then
             Some (''code_standards'',
                   (case rest of
                      [] \<Rightarrow> ''''
                    | l1 # _ \<Rightarrow> if strip l1 \<noteq> [] then strip l1 else ''''))
           else if contains ''discussions'' classification_line then
             Some (''discussions'', '''')
           else Some (''general'', '''')))"

text \<open>
  The \<open>for response in responses\<close> loop, with the two lists it appends to; blocks
  that are empty after stripping are skipped.
\<close>

fun parse_responses ::
  "string list \<Rightarrow> string list \<Rightarrow> string list \<Rightarrow> (string list \<times> string list) option" where
  "parse_responses [] classifications infs = Some (classifications, infs)"
| "parse_responses (response # responses) classifications infs =
     (if strip response = [] then parse_responses responses classifications infs
      else (case parse_block response of
              None \<Rightarrow> None
            | Some (c, i) \<Rightarrow> parse_responses responses (classifications @ [c]) (infs @ [i])))"

text \<open>The length reconciliation at the end of the \<open>try\<close> block.\<close>

definition reconcile :: "string list \<Rightarrow> nat \<Rightarrow> string list" where
  "reconcile classifications num_comments =
     (if length classifications < num_comments
      then classifications @ replicate (num_comments - length classifications) ''general''
      else if length classifications > num_comments
      then take num_comments classifications
      else classifications)"

text \<open>
  The parsing of the reply's text: \<open>result = text.strip()\<close>, split on blank lines,
  then the loop.
\<close>

definition parse_text :: "string \<Rightarrow> (string list \<times> string list) option" where
  "parse_text text = parse_responses (split (strip text) ''\<newline>\<newline>'') [] []"

text \<open>
  The statements of \<open>classify_comments\<close> inside its \<open>try\<close>; \<open>Inl e\<close> is an
  exception raised there (by the gateway call, the decoding of the body or the
  parsing).  \<open>num_comments\<close> is the caller's \<open>len(comments_to_classify)\<close>.  The
  value is the returned list and the client afterwards: \<open>self.inferences\<close> is
  assigned only on the path that parsed a text block.
\<close>

definition classify_body ::
  "bedrock_client \<Rightarrow> invoke_outcome \<Rightarrow> nat \<Rightarrow> string + (string list \<times> bedrock_client)" where
  "classify_body self outcome num_comments =
     (case outcome of
        Raises e \<Rightarrow> Inl e
      | Replies content \<Rightarrow>
          (case content of
             [] \<Rightarrow> Inr (replicate num_comments ''general'', self)
           | b # _ \<Rightarrow>
               if block_type b = Some ''text'' then
                 (case parse_text (case block_text b of None \<Rightarrow> '''' | Some t \<Rightarrow> t) of
                    None \<Rightarrow> Inl ''IndexError''
                  | Some (classifications, infs) \<Rightarrow>
                      Inr (reconcile classifications num_comments, self\<lparr>inferences := infs\<rparr>))
               else Inr (replicate num_comments ''general'', self)))"

text \<open>\<open>classify_comments\<close>: the \<open>try\<close> with its \<open>except Exception\<close> handler.\<close>

definition classify_comments ::
  "bedrock_client \<Rightarrow> invoke_outcome \<Rightarrow> nat \<Rightarrow> string list \<times> bedrock_client" where
  "classify_comments self outcome num_comments =
     (case classify_body self outcome num_comments of
        Inl e \<Rightarrow> (replicate num_comments ''general'', self)
      | Inr r \<Rightarrow> r)"

section \<open>One worker: \<open>GitHubClient._classify_pr_comments\<close>\<close>

record review_comment =
  rc_path :: string
  rc_review_comment :: "string option"
  rc_code_block :: "string option"

record pr =
  pr_number :: int
  pr_title :: string
  pr_comment_count :: int
  pr_review_comments :: "review_comment list option"

record comment_analysis =
  ca_file :: string
  ca_comment :: string
  ca_classification :: string
  ca_inferred_comment :: string

record pr_analysis =
  pa_pr_number :: int
  pa_title :: string
  pa_comment_count :: int
  pa_comment_analysis :: "comment_analysis list"

text \<open>The comments kept for classification: those with a non-empty body.\<close>

definition comments_to_classify :: "review_comment list \<Rightarrow> review_comment list" where
  "comments_to_classify rcs =
     filter (\<lambda>c. case rc_review_comment c of None \<Rightarrow> False | Some b \<Rightarrow> b \<noteq> []) rcs"

text \<open>
  The loop over \<open>enumerate(zip(comments_to_classify, classifications))\<close>: the
  inference is read from the client by index, and kept only for \<open>code_standards\<close>.
\<close>

definition map_classifications ::
  "bedrock_client \<Rightarrow> review_comment list \<Rightarrow> string list \<Rightarrow> comment_analysis list" where
  "map_classifications client todo classifications =
     map (\<lambda>(idx, comment, classification).
            (let inference = (if idx < length (inferences client)
                              then inferences client ! idx else '''')
             in \<lparr>ca_file = rc_path comment,
                 ca_comment = (case rc_review_comment comment of None \<Rightarrow> '''' | Some b \<Rightarrow> b),
                 ca_classification = classification,
                 ca_inferred_comment =
                   (if classification = ''code_standards'' then inference else '''')\<rparr>))
         (zip [0..<length todo] (zip todo classifications))"

text \<open>
  \<open>_classify_pr_comments\<close>: \<open>None\<close> is the value returned by its handler (here for
  the \<open>KeyError\<close> of a PR without \<open>review_comments\<close>).  With no comment to classify
  the classifier is not called.
\<close>

definition worker_classify_pr_comments ::
  "bedrock_client \<Rightarrow> invoke_outcome \<Rightarrow> pr \<Rightarrow> pr_analysis option \<times> bedrock_client" where
  "worker_classify_pr_comments client outcome p =
     (case pr_review_comments p of
        None \<Rightarrow> (None, client)
      | Some rcs \<Rightarrow>
          (let todo = comments_to_classify rcs in
           if todo = [] then
             (Some \<lparr>pa_pr_number = pr_number p, pa_title = pr_title p,
                    pa_comment_count = pr_comment_count p, pa_comment_analysis = []\<rparr>, client)
           else
             (case classify_comments client outcome (length todo) of
                (classifications, client') \<Rightarrow>
                  (Some \<lparr>pa_pr_number = pr_number p, pa_title = pr_title p,
                         pa_comment_count = pr_comment_count p,
                         pa_comment_analysis = map_classifications client' todo classifications\<rparr>,
                   client'))))"

section \<open>PR selector: \<open>GitHubClient.get_top_k_prs_by_comments\<close>\<close>

text \<open>
  The context \<open>extract_pr_context\<close> returns for a PR, as far as the pipeline reads
  it, and \<open>_process_pr\<close>, which updates the PR record with it; \<open>None\<close> is a failed
  fetch.
\<close>

record pr_context =
  ctx_title :: string
  ctx_review_comments :: "review_comment list"

definition process_pr :: "(int \<Rightarrow> pr_context option) \<Rightarrow> pr \<Rightarrow> pr option" where
  "process_pr extract_pr_context pr_info =
     (case extract_pr_context (pr_number pr_info) of
        None \<Rightarrow> None
      | Some ctx \<Rightarrow>
          Some (pr_info\<lparr>pr_title := ctx_title ctx,
                        pr_review_comments := Some (ctx_review_comments ctx)\<rparr>))"

text \<open>
  The scan of the search results: \<open>get_pull\<close> gives the record built for a
  candidate, or \<open>None\<close> when fetching it raised (the candidate is skipped); the
  loop breaks once \<open>pr_count >= k * 2\<close>.
\<close>

fun scan_candidates ::
  "(int \<Rightarrow> pr option) \<Rightarrow> nat \<Rightarrow> int list \<Rightarrow> nat \<Rightarrow> pr list \<Rightarrow> pr list" where
  "scan_candidates get_pull k [] pr_count prs_with_comments = prs_with_comments"
| "scan_candidates get_pull k (issue # issues) pr_count prs_with_comments =
     (case get_pull issue of
        None \<Rightarrow> scan_candidates get_pull k issues pr_count prs_with_comments
      | Some pr_info \<Rightarrow>
          (if pr_count + 1 \<ge> k * 2 then prs_with_comments @ [pr_info]
           else scan_candidates get_pull k issues (pr_count + 1)
                  (prs_with_comments @ [pr_info])))"

text \<open>
  \<open>prs_with_comments.sort(key=comment_count, reverse=True)\<close> is a stable sort by
  descending count; \<open>top_prs\<close> is its first \<open>k\<close> entries.
\<close>

definition select_top_prs :: "nat \<Rightarrow> pr list \<Rightarrow> pr list" where
  "select_top_prs k prs_with_comments =
     take k (sort_key (\<lambda>p. - pr_comment_count p) prs_with_comments)"

text \<open>
  \<open>get_top_k_prs_by_comments\<close>.  \<open>search\<close> is the list of issue numbers the search
  returns (\<open>None\<close> when the search or the repository lookup raises: the outer
  handler returns \<open>None\<close>); \<open>as_completed\<close> is the order in which the executor
  hands back the futures of \<open>_process_pr\<close>, a permutation chosen by the scheduler.
  The value returned is \<open>processed_prs\<close>, the successful results in that order.
\<close>

definition get_top_k_prs_by_comments ::
  "int list option \<Rightarrow> (int \<Rightarrow> pr option) \<Rightarrow> (int \<Rightarrow> pr_context option) \<Rightarrow>
   (pr list \<Rightarrow> pr list) \<Rightarrow> nat \<Rightarrow> pr list option" where
  "get_top_k_prs_by_comments search get_pull extract_pr_context as_completed k =
     (case search of
        None \<Rightarrow> None
      | Some search_results \<Rightarrow>
          (let max_prs_to_check = min 300 (length search_results);
               prs_with_comments =
                 scan_candidates get_pull k (take max_prs_to_check search_results) 0 []
           in if prs_with_comments = [] then None
              else
                (let top_prs = select_top_prs k prs_with_comments
                 in Some (List.map_filter (process_pr extract_pr_context)
                            (as_completed top_prs)))))"

section \<open>Guideline synthesizer: \<open>BedrockClient.generate_llmtxt_guidelines\<close>\<close>

text \<open>
  An entry of \<open>all_comments\<close>, as \<open>generate_llmtxt\<close> builds it: the key
  \<open>inferred_comment\<close> is set only for a non-empty inference.
\<close>

record comment_datum =
  cd_pr_number :: int
  cd_pr_title :: string
  cd_file :: string
  cd_comment :: string
  cd_classification :: string
  cd_inferred_comment :: "string option"

definition inferred_of :: "comment_datum \<Rightarrow> string" where
  "inferred_of c = (case cd_inferred_comment c of None \<Rightarrow> '''' | Some i \<Rightarrow> i)"

text \<open>\<open>str(i)\<close> for a non-negative integer.\<close>

definition digit_char :: "nat \<Rightarrow> char" where
  "digit_char d = char_of (48 + d)"

function str_nat :: "nat \<Rightarrow> string" where
  "str_nat n = (if n < 10 then [digit_char n] else str_nat (n div 10) @ [digit_char (n mod 10)])"
  by pat_completeness auto
termination
  by (relation "measure (\<lambda>n. n)") auto

text \<open>
  More than 30 comments: they are grouped by file in a dictionary, which keeps the
  order in which the files were first seen, and for each file the five entries with
  the longest inference are printed (a stable sort by descending length).
\<close>

fun add_file_comment ::
  "string \<Rightarrow> string \<times> string \<Rightarrow> (string \<times> (string \<times> string) list) list \<Rightarrow>
   (string \<times> (string \<times> string) list) list" where
  "add_file_comment file c [] = [(file, [c])]"
| "add_file_comment file c ((g, cs) # file_comments) =
     (if file = g then (g, cs @ [c]) # file_comments
      else (g, cs) # add_file_comment file c file_comments)"

fun group_by_file ::
  "comment_datum list \<Rightarrow> (string \<times> (string \<times> string) list) list \<Rightarrow>
   (string \<times> (string \<times> string) list) list" where
  "group_by_file [] file_comments = file_comments"
| "group_by_file (c # cs) file_comments =
     group_by_file cs (add_file_comment (cd_file c) (cd_comment c, inferred_of c) file_comments)"

definition render_selected :: "nat \<times> string \<times> string \<Rightarrow> string" where
  "render_selected = (\<lambda>(i, comment, inferred).
     ''Comment '' @ str_nat i @ '': '' @ comment @ ''\<newline>''
     @ (if inferred \<noteq> [] then ''Inferred Standard: '' @ inferred @ ''\<newline>'' else ''''))"

definition render_file :: "string \<times> (string \<times> string) list \<Rightarrow> string" where
  "render_file = (\<lambda>(file, file_data).
     (let selected = take 5 (sort_key (\<lambda>x. - int (length (snd x))) file_data)
      in ''File: '' @ file @ ''\<newline>''
         @ concat (map render_selected (zip [1..<Suc (length selected)] selected))
         @ ''\<newline>''))"

definition render_comment :: "comment_datum \<Rightarrow> string" where
  "render_comment c =
     ''File: '' @ cd_file c @ ''\<newline>Comment: '' @ cd_comment c
     @ ''\<newline>Classification: '' @ cd_classification c @ ''\<newline>''
     @ (if inferred_of c \<noteq> [] then ''Inferred: '' @ inferred_of c @ ''\<newline>'' else '''')
     @ ''\<newline>''"

definition comments_text :: "comment_datum list \<Rightarrow> string" where
  "comments_text all_comments =
     (if length all_comments > 30
      then concat (map render_file (group_by_file all_comments []))
      else concat (map render_comment all_comments))"

text \<open>
  The table of contents: \<open>re.search(r'## Table of Contents.*?(?=##\s+\w+|$)', s, re.DOTALL)\<close>.
  \<open>heading_ahead s\<close> says that \<open>##\s+\w+\<close> matches at the start of \<open>s\<close>, and
  \<open>toc_stop s\<close> that the lookahead holds there: a heading, or \<open>$\<close>, which matches at
  the end of the string and before a newline that ends it.  The lazy \<open>.*?\<close> takes
  the shortest run of characters after which the lookahead holds, and the search
  returns the leftmost match.
\<close>

definition heading_ahead :: "string \<Rightarrow> bool" where
  "heading_ahead s =
     (case s of
        a # b # rest \<Rightarrow>
          a = CHR ''#'' \<and> b = CHR ''#'' \<and> takeWhile py_isspace rest \<noteq> [] \<and>
          (case dropWhile py_isspace rest of [] \<Rightarrow> False | w # _ \<Rightarrow> py_isword w)
      | _ \<Rightarrow> False)"

definition toc_stop :: "string \<Rightarrow> bool" where
  "toc_stop s = (heading_ahead s \<or> s = [] \<or> s = ''\<newline>'')"

fun lazy_until_stop :: "string \<Rightarrow> string" where
  "lazy_until_stop [] = []"
| "lazy_until_stop (x # xs) = (if toc_stop (x # xs) then [] else x # lazy_until_stop xs)"

definition toc_heading :: string where
  "toc_heading = ''## Table of Contents''"

fun search_toc :: "string \<Rightarrow> string option" where
  "search_toc [] = None"
| "search_toc (x # xs) =
     (if prefix toc_heading (x # xs)
      then Some (toc_heading @ lazy_until_stop (drop (length toc_heading) (x # xs)))
      else search_toc xs)"

text \<open>The content forwarded for a document of more than 20000 characters.\<close>

definition optimized_content :: "string \<Rightarrow> string" where
  "optimized_content existing_content =
     (let toc_section = (case search_toc existing_content of None \<Rightarrow> '''' | Some m \<Rightarrow> m);
          start_content = take 10000 existing_content;
          end_content = (if length existing_content > 5000
                         then drop (length existing_content - 5000) existing_content
                         else '''')
      in toc_section @ ''\<newline>\<newline>'' @ start_content
         @ ''\<newline>\<newline>...\<newline>[Content truncated for efficiency]\<newline>\<newline>''
         @ end_content)"

text \<open>
  The prompt: which of the two templates of the configuration module is
  formatted, and with which arguments (\<open>existing_content\<close>, \<open>comments_text\<close>).
\<close>

datatype prompt = UpdatePrompt string string | GenerationPrompt string

definition build_prompt :: "comment_datum list \<Rightarrow> string \<Rightarrow> prompt" where
  "build_prompt all_comments existing_content =
     (if strip existing_content \<noteq> [] then
        (if length existing_content > 20000
         then UpdatePrompt (optimized_content existing_content) (comments_text all_comments)
         else UpdatePrompt existing_content (comments_text all_comments))
      else GenerationPrompt (comments_text all_comments))"

text \<open>
  \<open>generate_llmtxt_guidelines\<close>: \<open>invoke\<close> is the gateway call on the prompt with the
  decoding of its body.  Every path inside the \<open>try\<close> returns a string.
\<close>

definition generate_llmtxt_guidelines ::
  "(prompt \<Rightarrow> invoke_outcome) \<Rightarrow> comment_datum list \<Rightarrow> string \<Rightarrow> string" where
  "generate_llmtxt_guidelines invoke all_comments existing_content =
     (case invoke (build_prompt all_comments existing_content) of
        Raises e \<Rightarrow> ''Error generating coding guidelines: '' @ e
      | Replies content \<Rightarrow>
          (case content of
             [] \<Rightarrow> ''Unable to generate coding guidelines.''
           | b # _ \<Rightarrow>
               if block_type b = Some ''text''
               then strip (case block_text b of None \<Rightarrow> '''' | Some t \<Rightarrow> t)
               else ''Unable to generate coding guidelines.''))"

section \<open>Checkpoint store\<close>

text \<open>
  The dictionary that is pickled: the keys written by \<open>generate_llmtxt\<close>.  The list
  \<open>processed_pr_ids\<close> is made from a set and read back into a set, so it is kept as
  a set; \<open>processing_stage\<close> is absent in the snapshots taken after each PR.
\<close>

record checkpoint_data =
  cp_all_comments :: "comment_datum list"
  cp_code_standards_count :: int
  cp_total_comments_count :: int
  cp_top_prs :: "pr list"
  cp_processed_pr_ids :: "int set"
  cp_processing_stage :: "string option"

text \<open>
  One save: \<open>with open(checkpoint_path, 'wb') as f: pickle.dump(data, f)\<close>.  The
  file is a byte string, \<open>None\<close> when the path does not exist, and \<open>payload\<close> is the
  pickled form of the data.  Opening for writing truncates the file in place;
  then the bytes are written to it.  The outcome says how far this goes: opening
  raises and the file is untouched, the dump raises after \<open>k\<close> bytes, which stay in
  the file when it is closed, or everything is written.  The result is the file
  afterwards and whether an exception was raised.
\<close>

datatype write_outcome = WriteCompletes | OpenRaises | WriteRaisesAfter nat

definition save_checkpoint ::
  "string option \<Rightarrow> string \<Rightarrow> write_outcome \<Rightarrow> string option \<times> bool" where
  "save_checkpoint file payload outcome =
     (case outcome of
        OpenRaises \<Rightarrow> (file, True)
      | WriteRaisesAfter k \<Rightarrow> (Some (take k payload), True)
      | WriteCompletes \<Rightarrow> (Some payload, False))"

section \<open>Orchestrator: \<open>GitHubClient.generate_llmtxt\<close>\<close>

text \<open>
  What the run meets outside the program.  The paths of the output file and of the
  checkpoint are fixed by the arguments; the environment gives the files found
  there and the behaviour of the collaborators.  The output file is modelled by
  the text that reading it returns and that writing stores:
  \<^item> the output file when it is read at the start;
  \<^item> whether creating the checkpoint directory raises;
  \<^item> the checkpoint file, with the two directions of \<open>pickle\<close> (\<open>None\<close>: loading raises);
  \<^item> the PR selector, as a function of \<open>limit\<close>;
  \<^item> what \<open>future.result()\<close> gives for the worker of a PR, and the order in which
    the futures complete;
  \<^item> the outcome of the \<open>n\<close>-th save of the run;
  \<^item> whether the call of the synthesizer raises, and otherwise its gateway;
  \<^item> whether writing the output file, or removing the checkpoint, raises.
\<close>

datatype file_read = NoFile | ReadRaises | FileText string

datatype worker_result = WorkerRaises | WorkerReturns "pr_analysis option"

record run_env =
  env_output_file :: file_read
  env_makedirs_raises :: bool
  env_resume :: bool
  env_checkpoint_file :: "string option"
  env_pickle_load :: "string \<Rightarrow> checkpoint_data option"
  env_pickle_dumps :: "checkpoint_data \<Rightarrow> string"
  env_select_top :: "nat \<Rightarrow> pr list option"
  env_classify_worker :: "pr \<Rightarrow> worker_result"
  env_as_completed :: "worker_result list \<Rightarrow> worker_result list"
  env_save_outcome :: "nat \<Rightarrow> write_outcome"
  env_synth_raises :: bool
  env_invoke :: "prompt \<Rightarrow> invoke_outcome"
  env_write_output_raises :: bool
  env_remove_raises :: bool

text \<open>
  The variables of the run, with the checkpoint file, the number of saves tried so
  far, the messages given to \<open>logger.error\<close> and the PRs on which a worker
  (\<open>_classify_pr_comments\<close>) has been started, in the order of submission.
\<close>

record run_state =
  st_all_comments :: "comment_datum list"
  st_code_standards_count :: int
  st_total_comments_count :: int
  st_processed_pr_ids :: "int set"
  st_checkpoint :: "string option"
  st_saves :: nat
  st_log :: "string list"
  st_worker_calls :: "pr list"

text \<open>Reading the output file: \<open>existing_content\<close> and \<open>existing_file\<close>.\<close>

definition read_existing :: "file_read \<Rightarrow> string \<times> bool" where
  "read_existing f =
     (case f of
        NoFile \<Rightarrow> ('''', False)
      | ReadRaises \<Rightarrow> ('''', False)
      | FileText existing_content \<Rightarrow> (existing_content, strip existing_content \<noteq> []))"

text \<open>
  The state before the resume block: nothing processed, and the error logged when
  reading the output file raised.  Then the resume block: the state and \<open>top_prs\<close>
  after it.  A checkpoint that cannot be loaded is logged and the run starts from
  scratch.
\<close>

definition initial_state :: "run_env \<Rightarrow> run_state" where
  "initial_state env =
     \<lparr>st_all_comments = [], st_code_standards_count = 0, st_total_comments_count = 0,
      st_processed_pr_ids = {}, st_checkpoint = env_checkpoint_file env, st_saves = 0,
      st_log = (case env_output_file env of
                  ReadRaises \<Rightarrow> [''Error reading existing file'']
                | NoFile \<Rightarrow> []
                | FileText existing_content \<Rightarrow> []),
      st_worker_calls = []\<rparr>"

definition restore :: "run_env \<Rightarrow> run_state \<times> pr list" where
  "restore env =
     (if env_resume env then
        (case env_checkpoint_file env of
           None \<Rightarrow> (initial_state env, [])
         | Some bytes \<Rightarrow>
             (case env_pickle_load env bytes of
                None \<Rightarrow>
                  ((initial_state env)
                     \<lparr>st_log := st_log (initial_state env) @ [''Error loading checkpoint'']\<rparr>,
                   [])
              | Some checkpoint \<Rightarrow>
                  ((initial_state env)
                     \<lparr>st_all_comments := cp_all_comments checkpoint,
                      st_code_standards_count := cp_code_standards_count checkpoint,
                      st_total_comments_count := cp_total_comments_count checkpoint,
                      st_processed_pr_ids := cp_processed_pr_ids checkpoint\<rparr>,
                   cp_top_prs checkpoint)))
      else (initial_state env, []))"

text \<open>
  Discovery: the selector is called only when \<open>top_prs\<close> is empty.  The value is
  \<open>top_prs\<close> afterwards (\<open>None\<close> for a selector that returned \<open>None\<close>) and whether the
  selector was called.
\<close>

definition discover :: "run_env \<Rightarrow> nat \<Rightarrow> pr list \<Rightarrow> pr list option \<times> bool" where
  "discover env limit top_prs =
     (if top_prs = [] then (env_select_top env limit, True) else (Some top_prs, False))"

definition unprocessed_prs :: "pr list \<Rightarrow> int set \<Rightarrow> pr list" where
  "unprocessed_prs top_prs processed = filter (\<lambda>p. pr_number p \<notin> processed) top_prs"

text \<open>The entry appended to \<open>all_comments\<close> for a \<open>code_standards\<close> comment.\<close>

definition comment_data_of :: "pr_analysis \<Rightarrow> comment_analysis \<Rightarrow> comment_datum" where
  "comment_data_of result analysis =
     \<lparr>cd_pr_number = pa_pr_number result, cd_pr_title = pa_title result,
      cd_file = ca_file analysis, cd_comment = ca_comment analysis,
      cd_classification = ca_classification analysis,
      cd_inferred_comment =
        (if ca_inferred_comment analysis \<noteq> [] then Some (ca_inferred_comment analysis)
         else None)\<rparr>"

fun extract_comments :: "pr_analysis \<Rightarrow> comment_analysis list \<Rightarrow> run_state \<Rightarrow> run_state" where
  "extract_comments result [] st = st"
| "extract_comments result (analysis # rest) st =
     extract_comments result rest
       (if ca_classification analysis = ''code_standards''
        then st\<lparr>st_total_comments_count := st_total_comments_count st + 1,
                st_code_standards_count := st_code_standards_count st + 1,
                st_all_comments := st_all_comments st @ [comment_data_of result analysis]\<rparr>
        else st\<lparr>st_total_comments_count := st_total_comments_count st + 1\<rparr>)"

definition snapshot :: "pr list \<Rightarrow> run_state \<Rightarrow> string option \<Rightarrow> checkpoint_data" where
  "snapshot top_prs st stage =
     \<lparr>cp_all_comments = st_all_comments st,
      cp_code_standards_count = st_code_standards_count st,
      cp_total_comments_count = st_total_comments_count st,
      cp_top_prs = top_prs,
      cp_processed_pr_ids = st_processed_pr_ids st,
      cp_processing_stage = stage\<rparr>"

text \<open>
  A save inside its own \<open>try\<close>: an exception is logged with the message of that
  handler, and the run goes on.
\<close>

definition try_save :: "run_env \<Rightarrow> checkpoint_data \<Rightarrow> string \<Rightarrow> run_state \<Rightarrow> run_state" where
  "try_save env data msg st =
     (case save_checkpoint (st_checkpoint st) (env_pickle_dumps env data)
             (env_save_outcome env (st_saves st)) of
        (file, raised) \<Rightarrow>
          st\<lparr>st_checkpoint := file, st_saves := Suc (st_saves st),
             st_log := (if raised then st_log st @ [msg] else st_log st)\<rparr>)"

text \<open>The body of the loop over the completed futures.\<close>

definition handle_result :: "run_env \<Rightarrow> pr list \<Rightarrow> run_state \<Rightarrow> worker_result \<Rightarrow> run_state" where
  "handle_result env top_prs st res =
     (case res of
        WorkerRaises \<Rightarrow> st\<lparr>st_log := st_log st @ [''Error processing PR'']\<rparr>
      | WorkerReturns None \<Rightarrow> st
      | WorkerReturns (Some result) \<Rightarrow>
          (let st1 = st\<lparr>st_processed_pr_ids := insert (pa_pr_number result) (st_processed_pr_ids st)\<rparr>;
               st2 = extract_comments result (pa_comment_analysis result) st1
           in try_save env (snapshot top_prs st2 None) ''Error saving checkpoint'' st2))"

text \<open>
  \<open>executor.submit(self._classify_pr_comments, pr, quiet)\<close>: the worker is started
  on the PR, which is recorded, and its future joins the list.  A future is modelled
  by what \<open>future.result()\<close> will give.
\<close>

definition submit ::
  "run_env \<Rightarrow> run_state \<times> worker_result list \<Rightarrow> pr \<Rightarrow> run_state \<times> worker_result list" where
  "submit env acc p =
     (case acc of
        (st, futures) \<Rightarrow>
          (st\<lparr>st_worker_calls := st_worker_calls st @ [p]\<rparr>,
           futures @ [env_classify_worker env p]))"

text \<open>
  The analysis: a worker is submitted for each PR of \<open>unprocessed_prs\<close> and for no
  other, then the loop handles the futures in the order in which they complete.
\<close>

definition analyse :: "run_env \<Rightarrow> pr list \<Rightarrow> pr list \<Rightarrow> run_state \<Rightarrow> run_state" where
  "analyse env top_prs unprocessed st =
     (case foldl (submit env) (st, []) unprocessed of
        (st1, futures) \<Rightarrow>
          foldl (handle_result env top_prs) st1 (env_as_completed env futures))"

text \<open>
  What a run does, as far as the properties below look at it: the value returned,
  the PRs handed to the executor, whether the selector was called, the arguments
  of the synthesizer call if there was one, the text written to the output file
  if it was written, and the state at the end.
\<close>

record run_result =
  returned :: bool
  dispatched :: "pr list"
  selector_called :: bool
  synth_args :: "(comment_datum list \<times> string) option"
  output_written :: "string option"
  final_state :: run_state

text \<open>
  From the stage marker to the end: the final checkpoint, the synthesis (an
  exception there ends the run with \<open>False\<close>), the second marker, the comparison
  with the existing content, the write (an exception there reaches the outer
  handler) and the removal of the checkpoint.
\<close>

definition finish ::
  "run_env \<Rightarrow> string \<Rightarrow> bool \<Rightarrow> pr list \<Rightarrow> pr list \<Rightarrow> bool \<Rightarrow> run_state \<Rightarrow> run_result" where
  "finish env existing_content existing_file top_prs unprocessed called st =
     (let st1 = try_save env (snapshot top_prs st (Some ''pr_analysis_complete''))
                  ''Error saving final checkpoint'' st
      in if env_synth_raises env then
           \<lparr>returned = False, dispatched = unprocessed, selector_called = called,
            synth_args = Some (st_all_comments st1, existing_content), output_written = None,
            final_state = st1\<lparr>st_log := st_log st1 @ [''Error during LLM extraction'']\<rparr>\<rparr>
         else
           (let llmtxt_content =
                  generate_llmtxt_guidelines (env_invoke env) (st_all_comments st1) existing_content;
                st2 = try_save env (snapshot top_prs st1 (Some ''llm_extraction_complete''))
                        ''Error updating checkpoint after LLM extraction'' st1;
                should_write = (if existing_file then existing_content \<noteq> llmtxt_content
                                else True)
            in if should_write \<and> env_write_output_raises env then
                 \<lparr>returned = False, dispatched = unprocessed, selector_called = called,
                  synth_args = Some (st_all_comments st1, existing_content),
                  output_written = None, final_state = st2\<rparr>
               else
                 \<lparr>returned = True, dispatched = unprocessed, selector_called = called,
                  synth_args = Some (st_all_comments st1, existing_content),
                  output_written = (if should_write then Some llmtxt_content else None),
                  final_state =
                    (case st_checkpoint st2 of
                       None \<Rightarrow> st2
                     | Some bytes \<Rightarrow>
                         if env_remove_raises env
                         then st2\<lparr>st_log := st_log st2 @ [''Error removing checkpoint'']\<rparr>
                         else st2\<lparr>st_checkpoint := None\<rparr>)\<rparr>))"

text \<open>\<open>generate_llmtxt\<close>, with \<open>limit\<close> the number of PRs asked for.\<close>

definition generate_llmtxt :: "run_env \<Rightarrow> nat \<Rightarrow> run_result" where
  "generate_llmtxt env limit =
     (case read_existing (env_output_file env) of
        (existing_content, existing_file) \<Rightarrow>
          if env_makedirs_raises env then
            \<lparr>returned = False, dispatched = [], selector_called = False, synth_args = None,
             output_written = None, final_state = initial_state env\<rparr>
          else
            (case restore env of
               (st, restored_prs) \<Rightarrow>
                 (case discover env limit restored_prs of
                    (found, called) \<Rightarrow>
                      (case found of
                         None \<Rightarrow>
                           \<lparr>returned = False, dispatched = [], selector_called = called,
                            synth_args = None, output_written = None, final_state = st\<rparr>
                       | Some top_prs \<Rightarrow>
                           if top_prs = [] then
                             \<lparr>returned = False, dispatched = [], selector_called = called,
                              synth_args = None, output_written = None, final_state = st\<rparr>
                           else
                             (let unprocessed = unprocessed_prs top_prs (st_processed_pr_ids st)
                              in finish env existing_content existing_file top_prs unprocessed
                                   called (analyse env top_prs unprocessed st))))))"

text \<open>
  The part of the state that the pipeline computes, leaving out the checkpoint
  file, the count of saves and the log; and what is observed of a run with it.
\<close>

definition core :: "run_state \<Rightarrow> comment_datum list \<times> int \<times> int \<times> int set" where
  "core st = (st_all_comments st, st_code_standards_count st, st_total_comments_count st,
              st_processed_pr_ids st)"

definition run_view ::
  "run_result \<Rightarrow> bool \<times> pr list \<times> bool \<times> (comment_datum list \<times> string) option \<times>
                 string option \<times> (comment_datum list \<times> int \<times> int \<times> int set)" where
  "run_view r = (returned r, dispatched r, selector_called r, synth_args r, output_written r,
                 core (final_state r))"

section \<open>Properties of the batch classifier\<close>

text \<open>
  Reconciliation gives the length asked for; splitting never gives the empty list,
  so the parsing never raises; the worker pairs each comment with its class.
\<close>

lemma reconcile_eq: "reconcile cs n = take n cs @ replicate (n - length cs) ''general''"
  by (simp add: reconcile_def)

lemma reconcile_length: "length (reconcile cs n) = n"
  by (simp add: reconcile_def)

lemma split_from_ne: "split_from c sep cur s \<noteq> []"
  by (induction c sep cur s rule: split_from.induct) auto

lemma parse_block_total: "parse_block r \<noteq> None"
  using split_from_ne[of "CHR ''\<newline>''" "[]" "[]" "strip r"]
  by (auto simp: parse_block_def split_def Let_def split: list.splits)

lemma parse_responses_total: "parse_responses rs cs is \<noteq> None"
  by (induction rs cs "is" rule: parse_responses.induct)
     (auto split: option.splits simp: parse_block_total)

lemma classify_body_length:
  "classify_body self outcome n = Inr (cls, self') \<Longrightarrow> length cls = n"
  by (auto simp: classify_body_def reconcile_length
           split: invoke_outcome.splits list.splits if_splits option.splits)

lemma classify_comments_len: "length (fst (classify_comments self outcome n)) = n"
  by (cases "classify_body self outcome n")
     (auto simp: classify_comments_def classify_body_length)

lemma classify_comments_parsed:
  "outcome = Replies (b # bs) \<Longrightarrow> block_type b = Some ''text'' \<Longrightarrow>
   parse_text (case block_text b of None \<Rightarrow> '''' | Some t \<Rightarrow> t) = Some (cs, infs) \<Longrightarrow>
   classify_comments self outcome n =
     (take n cs @ replicate (n - length cs) ''general'', self\<lparr>inferences := infs\<rparr>)"
  by (simp add: classify_comments_def classify_body_def reconcile_eq)

lemma map_classifications_length:
  "length cls = length todo \<Longrightarrow> length (map_classifications client todo cls) = length todo"
  by (simp add: map_classifications_def)

lemma map_classifications_nth:
  assumes "length cls = length todo" "i < length todo"
  shows "ca_classification (map_classifications client todo cls ! i) = cls ! i"
    and "cls ! i \<noteq> ''code_standards'' \<Longrightarrow> ca_inferred_comment (map_classifications client todo cls ! i) = ''''"
  using assms by (simp_all add: map_classifications_def Let_def)

lemma worker_analysis:
  assumes "pr_review_comments p = Some rcs"
  shows "\<exists>a. fst (worker_classify_pr_comments self outcome p) = Some a \<and>
     length (pa_comment_analysis a) = length (comments_to_classify rcs) \<and>
     (\<forall>i < length (comments_to_classify rcs).
        ca_classification (pa_comment_analysis a ! i) =
          fst (classify_comments self outcome (length (comments_to_classify rcs))) ! i \<and>
        (fst (classify_comments self outcome (length (comments_to_classify rcs))) ! i \<noteq> ''code_standards''
          \<longrightarrow> ca_inferred_comment (pa_comment_analysis a ! i) = ''''))"
proof (cases "comments_to_classify rcs = []")
  case True
  with assms show ?thesis by (simp add: worker_classify_pr_comments_def)
next
  case False
  obtain cls c' where cc: "classify_comments self outcome (length (comments_to_classify rcs)) = (cls, c')"
    by (cases "classify_comments self outcome (length (comments_to_classify rcs))")
  have len: "length cls = length (comments_to_classify rcs)"
    using classify_comments_len[of self outcome "length (comments_to_classify rcs)"] cc by simp
  show ?thesis
    using assms False cc len
    by (simp add: worker_classify_pr_comments_def map_classifications_length map_classifications_nth)
qed

text \<open>
  Claim C1.  Whatever the gateway does, \<open>classify_comments\<close> returns as many
  classifications as it was asked for.  When a text reply was parsed into
  \<open>cs\<close>, the list returned is the first \<open>n\<close> entries of \<open>cs\<close> followed by
  \<open>'general'\<close> up to length \<open>n\<close>; in the worker's analysis the padded entries carry
  an empty inference.
\<close>

theorem classify_comments_length_invariance:
  "length (fst (classify_comments self outcome n)) = n \<and>
   (\<forall>b bs cs infs.
      outcome = Replies (b # bs) \<and> block_type b = Some ''text'' \<and>
      parse_text (case block_text b of None \<Rightarrow> '''' | Some t \<Rightarrow> t) = Some (cs, infs) \<longrightarrow>
      fst (classify_comments self outcome n) = take n cs @ replicate (n - length cs) ''general'' \<and>
      (\<forall>p rcs. pr_review_comments p = Some rcs \<longrightarrow>
         (\<exists>a. fst (worker_classify_pr_comments self outcome p) = Some a \<and>
              map ca_classification (pa_comment_analysis a) =
                take (length (comments_to_classify rcs)) cs
                @ replicate (length (comments_to_classify rcs) - length cs) ''general'' \<and>
              (\<forall>i. length cs \<le> i \<and> i < length (comments_to_classify rcs) \<longrightarrow>
                 ca_inferred_comment (pa_comment_analysis a ! i) = ''''))))"
proof (intro conjI allI impI)
  show "length (fst (classify_comments self outcome n)) = n"
    by (rule classify_comments_len)
next
  fix b bs cs infs
  assume h: "outcome = Replies (b # bs) \<and> block_type b = Some ''text'' \<and>
      parse_text (case block_text b of None \<Rightarrow> '''' | Some t \<Rightarrow> t) = Some (cs, infs)"
  then show "fst (classify_comments self outcome n) = take n cs @ replicate (n - length cs) ''general''"
    by (simp add: classify_comments_parsed)
next
  fix b bs cs infs and p :: pr and rcs
  assume h: "outcome = Replies (b # bs) \<and> block_type b = Some ''text'' \<and>
      parse_text (case block_text b of None \<Rightarrow> '''' | Some t \<Rightarrow> t) = Some (cs, infs)"
    and p: "pr_review_comments p = Some rcs"
  let ?N = "length (comments_to_classify rcs)"
  let ?cls = "take ?N cs @ replicate (?N - length cs) ''general''"
  have cc: "fst (classify_comments self outcome ?N) = ?cls"
    using h by (simp add: classify_comments_parsed)
  from worker_analysis[OF p, of self outcome] obtain a where
    a: "fst (worker_classify_pr_comments self outcome p) = Some a"
    and len: "length (pa_comment_analysis a) = ?N"
    and nth: "\<forall>i < ?N. ca_classification (pa_comment_analysis a ! i) = ?cls ! i \<and>
        (?cls ! i \<noteq> ''code_standards'' \<longrightarrow> ca_inferred_comment (pa_comment_analysis a ! i) = '''')"
    unfolding cc by blast
  have m: "map ca_classification (pa_comment_analysis a) = ?cls"
    by (rule nth_equalityI) (use len nth in auto)
  have pad: "ca_inferred_comment (pa_comment_analysis a ! i) = ''''"
    if "length cs \<le> i \<and> i < ?N" for i
  proof -
    have "?cls ! i = ''general''"
      using that by (auto simp: nth_append)
    with nth that show ?thesis by simp
  qed
  show "\<exists>a. fst (worker_classify_pr_comments self outcome p) = Some a \<and>
              map ca_classification (pa_comment_analysis a) = ?cls \<and>
              (\<forall>i. length cs \<le> i \<and> i < ?N \<longrightarrow>
                 ca_inferred_comment (pa_comment_analysis a ! i) = '''')"
    using a m pad by blast
qed

lemma parse_text_discussions:
  "parse_text ''discussions'' = Some ([''discussions''], [''''])"
  by code_simp

theorem classify_comments_length_invariance_witness:
  "length (fst (classify_comments \<lparr>inferences = []\<rparr>
      (Replies [\<lparr>block_type = Some ''text'', block_text = Some ''discussions''\<rparr>]) 2)) = 2 \<and>
   fst (classify_comments \<lparr>inferences = []\<rparr>
      (Replies [\<lparr>block_type = Some ''text'', block_text = Some ''discussions''\<rparr>]) 2)
     = [''discussions'', ''general'']"
  using classify_comments_length_invariance [of "\<lparr>inferences = []\<rparr>"
      "Replies [\<lparr>block_type = Some ''text'', block_text = Some ''discussions''\<rparr>]" 2]
    parse_text_discussions
  by simp

text \<open>
  Claim C2.  When the gateway call or the parsing raises inside the \<open>try\<close>, the
  handler of \<open>classify_comments\<close> returns \<open>n\<close> times \<open>'general'\<close> and leaves the
  client as it was; the worker then records every comment as \<open>general\<close> with an
  empty inference, whatever inferences an earlier call had left in the client.
\<close>

theorem classify_comments_exception_failsafe:
  assumes "classify_body self outcome n = Inl e"
  shows "classify_comments self outcome n = (replicate n ''general'', self) \<and>
    (\<forall>p rcs. pr_review_comments p = Some rcs \<longrightarrow>
       (\<exists>a. fst (worker_classify_pr_comments self outcome p) = Some a \<and>
            length (pa_comment_analysis a) = length (comments_to_classify rcs) \<and>
            (\<forall>x \<in> set (pa_comment_analysis a).
               ca_classification x = ''general'' \<and> ca_inferred_comment x = '''')))"
proof (intro conjI allI impI)
  have raises: "classify_body self outcome m = Inl e" for m
    using assms
    by (auto simp: classify_body_def split: invoke_outcome.splits list.splits if_splits option.splits)
  show "classify_comments self outcome n = (replicate n ''general'', self)"
    using assms by (simp add: classify_comments_def)
  fix p :: pr and rcs
  assume p: "pr_review_comments p = Some rcs"
  let ?N = "length (comments_to_classify rcs)"
  have cc: "fst (classify_comments self outcome ?N) = replicate ?N ''general''"
    using raises[of ?N] by (simp add: classify_comments_def)
  from worker_analysis[OF p, of self outcome] obtain a where
    a: "fst (worker_classify_pr_comments self outcome p) = Some a"
    and len: "length (pa_comment_analysis a) = ?N"
    and nth: "\<forall>i < ?N. ca_classification (pa_comment_analysis a ! i) = replicate ?N ''general'' ! i \<and>
        (replicate ?N ''general'' ! i \<noteq> ''code_standards'' \<longrightarrow> ca_inferred_comment (pa_comment_analysis a ! i) = '''')"
    unfolding cc by blast
  have "ca_classification x = ''general'' \<and> ca_inferred_comment x = ''''"
    if "x \<in> set (pa_comment_analysis a)" for x
  proof -
    from that obtain i where "i < ?N" "x = pa_comment_analysis a ! i"
      using len by (metis in_set_conv_nth)
    with nth show ?thesis by simp
  qed
  with a len show "\<exists>a. fst (worker_classify_pr_comments self outcome p) = Some a \<and>
            length (pa_comment_analysis a) = length (comments_to_classify rcs) \<and>
            (\<forall>x \<in> set (pa_comment_analysis a).
               ca_classification x = ''general'' \<and> ca_inferred_comment x = '''')"
    by blast
qed

theorem classify_comments_exception_failsafe_witness:
  "classify_body \<lparr>inferences = [''stale'']\<rparr> (Raises ''ThrottlingException'') 3
     = Inl ''ThrottlingException'' \<and>
   classify_comments \<lparr>inferences = [''stale'']\<rparr> (Raises ''ThrottlingException'') 3
     = ([''general'', ''general'', ''general''], \<lparr>inferences = [''stale'']\<rparr>)"
proof -
  have h: "classify_body \<lparr>inferences = [''stale'']\<rparr> (Raises ''ThrottlingException'') 3
     = Inl ''ThrottlingException''"
    by (simp add: classify_body_def)
  from classify_comments_exception_failsafe [OF h] h show ?thesis
    by (simp add: numeral_3_eq_3)
qed

text \<open>
  Claim C3.  The scenario of the specification: the reply
  \<open>"code_standards\nPrefer early returns.\n\ndiscussions\n"\<close> for two comments
  gives \<open>code_standards\<close> with the inference \<open>Prefer early returns.\<close> and then
  \<open>discussions\<close> with no inference.
\<close>

theorem classify_comments_scenario:
  "classify_comments self
     (Replies [\<lparr>block_type = Some ''text'',
               block_text = Some ''code_standards\<newline>Prefer early returns.\<newline>\<newline>discussions\<newline>''\<rparr>]) 2
   = ([''code_standards'', ''discussions''],
      self\<lparr>inferences := [''Prefer early returns.'', '''']\<rparr>) \<and>
   map (\<lambda>x. (ca_classification x, ca_inferred_comment x))
     (case fst (worker_classify_pr_comments self
            (Replies [\<lparr>block_type = Some ''text'',
               block_text = Some ''code_standards\<newline>Prefer early returns.\<newline>\<newline>discussions\<newline>''\<rparr>])
            \<lparr>pr_number = num, pr_title = t, pr_comment_count = k,
             pr_review_comments = Some
               [\<lparr>rc_path = f1, rc_review_comment = Some (x1 # b1), rc_code_block = k1\<rparr>,
                \<lparr>rc_path = f2, rc_review_comment = Some (x2 # b2), rc_code_block = k2\<rparr>]\<rparr>) of
        None \<Rightarrow> [] | Some a \<Rightarrow> pa_comment_analysis a)
   = [(''code_standards'', ''Prefer early returns.''), (''discussions'', '''')]"
proof -
  have pt: "parse_text ''code_standards\<newline>Prefer early returns.\<newline>\<newline>discussions\<newline>''
    = Some ([''code_standards'', ''discussions''], [''Prefer early returns.'', ''''])"
    by code_simp
  have cc: "classify_comments self
     (Replies [\<lparr>block_type = Some ''text'',
               block_text = Some ''code_standards\<newline>Prefer early returns.\<newline>\<newline>discussions\<newline>''\<rparr>]) 2
   = ([''code_standards'', ''discussions''],
      self\<lparr>inferences := [''Prefer early returns.'', '''']\<rparr>)"
    by (simp add: classify_comments_def classify_body_def pt reconcile_def)
  show ?thesis
    by (simp add: cc worker_classify_pr_comments_def comments_to_classify_def
          map_classifications_def upt_rec numeral_2_eq_2 del: upt_Suc)
      (simp add: cc[unfolded numeral_2_eq_2])
qed

section \<open>Properties of the PR selector\<close>

text \<open>
  Claim C6.  The scenario of the specification, with candidates \<open>#10\<close> (40
  comments), \<open>#11\<close> (15), \<open>#12\<close> (15) and \<open>#13\<close> (5) and \<open>k = 3\<close>: the selection
  \<open>top_prs\<close> is \<open>[#10, #11, #12]\<close>, but the list the function returns is in the
  order in which the detail fetches complete; when they complete in the order
  \<open>#12, #11, #10\<close> that is the list returned, with counts 15, 15, 40.
\<close>

theorem get_top_k_prs_completion_order:
  "map pr_number
     (select_top_prs 3
        (scan_candidates
           (map_of
              [(10, \<lparr>pr_number = 10, pr_title = ''a'', pr_comment_count = 40, pr_review_comments = None\<rparr>),
               (11, \<lparr>pr_number = 11, pr_title = ''b'', pr_comment_count = 15, pr_review_comments = None\<rparr>),
               (12, \<lparr>pr_number = 12, pr_title = ''c'', pr_comment_count = 15, pr_review_comments = None\<rparr>),
               (13, \<lparr>pr_number = 13, pr_title = ''d'', pr_comment_count = 5, pr_review_comments = None\<rparr>)])
           3 [10, 11, 12, 13] 0 []))
   = [10, 11, 12] \<and>
   map_option (map (\<lambda>p. (pr_number p, pr_comment_count p)))
     (get_top_k_prs_by_comments (Some [10, 11, 12, 13])
        (map_of
           [(10, \<lparr>pr_number = 10, pr_title = ''a'', pr_comment_count = 40, pr_review_comments = None\<rparr>),
            (11, \<lparr>pr_number = 11, pr_title = ''b'', pr_comment_count = 15, pr_review_comments = None\<rparr>),
            (12, \<lparr>pr_number = 12, pr_title = ''c'', pr_comment_count = 15, pr_review_comments = None\<rparr>),
            (13, \<lparr>pr_number = 13, pr_title = ''d'', pr_comment_count = 5, pr_review_comments = None\<rparr>)])
        (map_of
           [(10, \<lparr>ctx_title = ''a'', ctx_review_comments = []\<rparr>),
            (11, \<lparr>ctx_title = ''b'', ctx_review_comments = []\<rparr>),
            (12, \<lparr>ctx_title = ''c'', ctx_review_comments = []\<rparr>),
            (13, \<lparr>ctx_title = ''d'', ctx_review_comments = []\<rparr>)])
        rev 3)
   = Some [(12, 15), (11, 15), (10, 40)]"
  by (simp add: get_top_k_prs_by_comments_def select_top_prs_def process_pr_def)

section \<open>Properties of the guideline synthesizer\<close>


















section \<open>Properties of the checkpoint store and the orchestrator\<close>

text \<open>
  A save touches only the checkpoint file, the count of saves and the log, and each
  step of the loop computes the rest of the state from the rest of the state alone.
\<close>

lemma core_try_save: "core (try_save env d msg st) = core st"
  by (simp add: try_save_def core_def split: prod.splits)

lemma core_extract_comments:
  "core st = core st' \<Longrightarrow> core (extract_comments r as st) = core (extract_comments r as st')"
proof (induction as arbitrary: st st')
  case Nil then show ?case by simp
next
  case (Cons a as)
  show ?case
    unfolding extract_comments.simps
    by (rule Cons.IH) (use Cons.prems in \<open>auto simp: core_def\<close>)
qed

lemma core_handle_result:
  assumes "core st = core st'"
  shows "core (handle_result env tp st res) = core (handle_result env' tp st' res)"
proof (cases res)
  case WorkerRaises
  with assms show ?thesis by (simp add: handle_result_def core_def)
next
  case (WorkerReturns ro)
  show ?thesis
  proof (cases ro)
    case None
    with WorkerReturns assms show ?thesis by (simp add: handle_result_def)
  next
    case (Some result)
    have "core (st\<lparr>st_processed_pr_ids := insert (pa_pr_number result) (st_processed_pr_ids st)\<rparr>)
        = core (st'\<lparr>st_processed_pr_ids := insert (pa_pr_number result) (st_processed_pr_ids st')\<rparr>)"
      using assms by (simp add: core_def)
    from core_extract_comments[OF this]
    show ?thesis
      using WorkerReturns Some by (simp add: handle_result_def Let_def core_try_save)
  qed
qed

lemma core_foldl_handle:
  "core st = core st' \<Longrightarrow>
   core (foldl (handle_result env tp) st rs) = core (foldl (handle_result env' tp) st' rs)"
proof (induction rs arbitrary: st st')
  case Nil then show ?case by simp
next
  case (Cons r rs)
  show ?case
    unfolding foldl_Cons
    by (rule Cons.IH) (rule core_handle_result[OF Cons.prems])
qed

lemma core_update:
  "core (st\<lparr>st_log := l\<rparr>) = core st"
  "core (st\<lparr>st_checkpoint := x\<rparr>) = core st"
  "core (st\<lparr>st_worker_calls := ps\<rparr>) = core st"
  by (simp_all add: core_def)

lemma core_all_comments: "core st = core st' \<Longrightarrow> st_all_comments st = st_all_comments st'"
  by (simp add: core_def)

lemma run_view_finish:
  assumes c: "core st = core st'"
  shows "run_view (finish (env\<lparr>env_save_outcome := f\<rparr>) ec ef tp un called st)
       = run_view (finish (env\<lparr>env_save_outcome := g\<rparr>) ec ef tp un called st')"
proof -
  let ?e1 = "env\<lparr>env_save_outcome := f\<rparr>" and ?e2 = "env\<lparr>env_save_outcome := g\<rparr>"
  define s1 where "s1 = try_save ?e1 (snapshot tp st (Some ''pr_analysis_complete''))
                  ''Error saving final checkpoint'' st"
  define s1' where "s1' = try_save ?e2 (snapshot tp st' (Some ''pr_analysis_complete''))
                  ''Error saving final checkpoint'' st'"
  have c1: "core s1 = core s1'" using c by (simp add: s1_def s1'_def core_try_save)
  then have a1: "st_all_comments s1 = st_all_comments s1'" by (rule core_all_comments)
  define s2 where "s2 = try_save ?e1 (snapshot tp s1 (Some ''llm_extraction_complete''))
                        ''Error updating checkpoint after LLM extraction'' s1"
  define s2' where "s2' = try_save ?e2 (snapshot tp s1' (Some ''llm_extraction_complete''))
                        ''Error updating checkpoint after LLM extraction'' s1'"
  have c2: "core s2 = core s2'" using c1 by (simp add: s2_def s2'_def core_try_save)
  show ?thesis
    unfolding finish_def Let_def s1_def[symmetric] s1'_def[symmetric]
      s2_def[symmetric] s2'_def[symmetric]
    by (simp add: run_view_def a1 c2 c1 core_update split: option.splits)
qed

lemma initial_state_save_outcome:
  "initial_state (env\<lparr>env_save_outcome := f\<rparr>) = initial_state env"
  by (simp add: initial_state_def)

lemma restore_save_outcome: "restore (env\<lparr>env_save_outcome := f\<rparr>) = restore env"
  by (simp add: restore_def initial_state_save_outcome split: option.splits)

lemma discover_save_outcome:
  "discover (env\<lparr>env_save_outcome := f\<rparr>) limit tp = discover env limit tp"
  by (simp add: discover_def)

lemma foldl_submit:
  "foldl (submit env) (st, fs) ps =
     (st\<lparr>st_worker_calls := st_worker_calls st @ ps\<rparr>, fs @ map (env_classify_worker env) ps)"
  by (induction ps arbitrary: st fs) (simp_all add: submit_def)

lemma analyse_eq:
  "analyse env tp un st =
     foldl (handle_result env tp) (st\<lparr>st_worker_calls := st_worker_calls st @ un\<rparr>)
       (env_as_completed env (map (env_classify_worker env) un))"
  by (simp add: analyse_def foldl_submit)

lemma core_analyse:
  "core (analyse (env\<lparr>env_save_outcome := f\<rparr>) tp un st)
     = core (analyse (env\<lparr>env_save_outcome := g\<rparr>) tp un st)"
  unfolding analyse_eq
  using core_foldl_handle[of "st\<lparr>st_worker_calls := st_worker_calls st @ un\<rparr>"
      "st\<lparr>st_worker_calls := st_worker_calls st @ un\<rparr>"
      "env\<lparr>env_save_outcome := f\<rparr>" tp _ "env\<lparr>env_save_outcome := g\<rparr>"]
  by simp

lemma run_view_generate:
  "run_view (generate_llmtxt (env\<lparr>env_save_outcome := f\<rparr>) limit)
     = run_view (generate_llmtxt (env\<lparr>env_save_outcome := g\<rparr>) limit)"
proof -
  obtain ec ef where re: "read_existing (env_output_file env) = (ec, ef)"
    by (cases "read_existing (env_output_file env)")
  obtain st rp where rs: "restore env = (st, rp)" by (cases "restore env")
  obtain found called where d: "discover env limit rp = (found, called)"
    by (cases "discover env limit rp")
  show ?thesis
  proof (cases "env_makedirs_raises env \<or> found = None \<or> found = Some []")
    case True
    then show ?thesis
      using re rs d
      by (auto simp: generate_llmtxt_def restore_save_outcome discover_save_outcome
            initial_state_save_outcome run_view_def)
  next
    case False
    then obtain tp where tp: "found = Some tp" "tp \<noteq> []" "\<not> env_makedirs_raises env"
      by (cases found) auto
    have "generate_llmtxt (env\<lparr>env_save_outcome := h\<rparr>) limit
        = finish (env\<lparr>env_save_outcome := h\<rparr>) ec ef tp (unprocessed_prs tp (st_processed_pr_ids st))
            called (analyse (env\<lparr>env_save_outcome := h\<rparr>) tp (unprocessed_prs tp (st_processed_pr_ids st)) st)" for h
      using re rs d tp
      by (simp add: generate_llmtxt_def restore_save_outcome discover_save_outcome Let_def)
    then show ?thesis
      using run_view_finish[OF core_analyse] by simp
  qed
qed

text \<open>
  Claim C10.  Whatever the outcomes of the saves, per PR or at the stage markers,
  the run returns the same value, hands the same PRs to the executor, calls the
  synthesizer with the same arguments, writes the same output and ends with the
  same comments, counters and processed set as the run in which every save
  succeeds.  A save that raises adds the message of its handler to the log and
  leaves the rest of the state as it was.
\<close>

theorem checkpoint_save_failure_tolerated:
  "run_view (generate_llmtxt (env\<lparr>env_save_outcome := outcomes\<rparr>) limit)
     = run_view (generate_llmtxt (env\<lparr>env_save_outcome := (\<lambda>n. WriteCompletes)\<rparr>) limit) \<and>
   (\<forall>data msg st.
      snd (save_checkpoint (st_checkpoint st) (env_pickle_dumps env data)
             (env_save_outcome env (st_saves st))) \<longrightarrow>
      st_log (try_save env data msg st) = st_log st @ [msg] \<and>
      core (try_save env data msg st) = core st)"
proof (intro conjI allI impI)
  show "run_view (generate_llmtxt (env\<lparr>env_save_outcome := outcomes\<rparr>) limit)
     = run_view (generate_llmtxt (env\<lparr>env_save_outcome := (\<lambda>n. WriteCompletes)\<rparr>) limit)"
    by (rule run_view_generate)
next
  fix data msg and st :: run_state
  assume "snd (save_checkpoint (st_checkpoint st) (env_pickle_dumps env data)
             (env_save_outcome env (st_saves st)))"
  then show "st_log (try_save env data msg st) = st_log st @ [msg]"
    by (cases "save_checkpoint (st_checkpoint st) (env_pickle_dumps env data)
             (env_save_outcome env (st_saves st))") (simp add: try_save_def)
next
  fix data msg and st :: run_state
  show "core (try_save env data msg st) = core st"
    by (rule core_try_save)
qed

text \<open>
  Claim C5, as amended.  A save rewrites the checkpoint file in place.  When no
  exception is raised the file holds exactly the new snapshot; in every case the
  file afterwards is the file before (opening failed) or a prefix of the new
  snapshot; a dump interrupted after \<open>k\<close> bytes leaves those \<open>k\<close> bytes, a failed
  opening leaves the file as it was, and a completed save leaves the new snapshot.
  The orchestrator keeps what the save left.
\<close>

theorem save_checkpoint_in_place:
  "(\<not> snd (save_checkpoint file payload outcome) \<longrightarrow>
      fst (save_checkpoint file payload outcome) = Some payload) \<and>
   (fst (save_checkpoint file payload outcome) = file \<or>
    (\<exists>k. fst (save_checkpoint file payload outcome) = Some (take k payload))) \<and>
   save_checkpoint file payload (WriteRaisesAfter k) = (Some (take k payload), True) \<and>
   st_checkpoint (try_save env data msg st)
     = fst (save_checkpoint (st_checkpoint st) (env_pickle_dumps env data)
              (env_save_outcome env (st_saves st))) \<and>
   save_checkpoint file payload OpenRaises = (file, True) \<and>
   save_checkpoint file payload WriteCompletes = (Some payload, False)"
proof -
  have "\<exists>k. Some payload = Some (take k payload)"
    by (rule exI[of _ "length payload"]) simp
  then show ?thesis
    by (cases outcome) (auto simp: save_checkpoint_def try_save_def split: prod.splits)
qed

theorem save_checkpoint_in_place_witness:
  "\<not> snd (save_checkpoint (Some ''OLD-SNAPSHOT'') ''NEW-SNAPSHOT'' WriteCompletes) \<and>
   fst (save_checkpoint (Some ''OLD-SNAPSHOT'') ''NEW-SNAPSHOT'' WriteCompletes)
     = Some ''NEW-SNAPSHOT''"
  using save_checkpoint_in_place [of "Some ''OLD-SNAPSHOT''" "''NEW-SNAPSHOT''" WriteCompletes]
  by (simp add: save_checkpoint_def)

text \<open>
  Claim C5 as stated fails: a dump interrupted after three bytes leaves a file
  that is neither the previous snapshot nor the new one.
\<close>

theorem save_checkpoint_torn_counterexample:
  "fst (save_checkpoint (Some ''OLD-SNAPSHOT'') ''NEW-SNAPSHOT'' (WriteRaisesAfter 3)) = Some ''NEW'' \<and>
   fst (save_checkpoint (Some ''OLD-SNAPSHOT'') ''NEW-SNAPSHOT'' (WriteRaisesAfter 3))
     \<noteq> Some ''OLD-SNAPSHOT'' \<and>
   fst (save_checkpoint (Some ''OLD-SNAPSHOT'') ''NEW-SNAPSHOT'' (WriteRaisesAfter 3))
     \<noteq> Some ''NEW-SNAPSHOT''"
  by (simp add: save_checkpoint_def)























lemma strip_guide: "strip ''# Guide'' = ''# Guide''"
  by (simp add: strip_def py_isspace_def)


theorem checkpoint_save_failure_tolerated_witness:
  "(let env =
          \<lparr>env_output_file = NoFile, env_makedirs_raises = False,
           env_resume = False, env_checkpoint_file = None, env_pickle_load = (\<lambda>b. None),
           env_pickle_dumps = (\<lambda>d. ''ckpt''),
           env_select_top =
             (\<lambda>k. Some [\<lparr>pr_number = 7, pr_title = ''t'', pr_comment_count = 1,
                            pr_review_comments = Some []\<rparr>]),
           env_classify_worker =
             (\<lambda>p. WorkerReturns (Some \<lparr>pa_pr_number = 7, pa_title = ''t'',
                                       pa_comment_count = 1, pa_comment_analysis = []\<rparr>)),
           env_as_completed = (\<lambda>ps. ps), env_save_outcome = (\<lambda>n. OpenRaises),
           env_synth_raises = False,
           env_invoke =
             (\<lambda>p. Replies [\<lparr>block_type = Some ''text'', block_text = Some ''# Guide''\<rparr>]),
           env_write_output_raises = False, env_remove_raises = False\<rparr>
    in snd (save_checkpoint (st_checkpoint (initial_state env))
              (env_pickle_dumps env (snapshot [] (initial_state env) None))
              (env_save_outcome env (st_saves (initial_state env)))) \<and>
       st_log (try_save env (snapshot [] (initial_state env) None)
                 ''Error saving checkpoint'' (initial_state env))
         = [''Error saving checkpoint''] \<and>
       returned (generate_llmtxt env 1) \<and>
       output_written (generate_llmtxt env 1) = Some ''# Guide'' \<and>
       st_processed_pr_ids (final_state (generate_llmtxt env 1)) = {7})"
proof -
  define env where "env =
          \<lparr>env_output_file = NoFile, env_makedirs_raises = False,
           env_resume = False, env_checkpoint_file = None, env_pickle_load = (\<lambda>b. None),
           env_pickle_dumps = (\<lambda>d. ''ckpt''),
           env_select_top =
             (\<lambda>k. Some [\<lparr>pr_number = 7, pr_title = ''t'', pr_comment_count = 1,
                            pr_review_comments = Some []\<rparr>]),
           env_classify_worker =
             (\<lambda>p. WorkerReturns (Some \<lparr>pa_pr_number = 7, pa_title = ''t'',
                                       pa_comment_count = 1, pa_comment_analysis = []\<rparr>)),
           env_as_completed = (\<lambda>ps. ps), env_save_outcome = (\<lambda>n. OpenRaises),
           env_synth_raises = False,
           env_invoke =
             (\<lambda>p. Replies [\<lparr>block_type = Some ''text'', block_text = Some ''# Guide''\<rparr>]),
           env_write_output_raises = False, env_remove_raises = False\<rparr>"
  have h: "snd (save_checkpoint (st_checkpoint (initial_state env))
              (env_pickle_dumps env (snapshot [] (initial_state env) None))
              (env_save_outcome env (st_saves (initial_state env))))"
    by (simp add: env_def save_checkpoint_def)
  have e: "env\<lparr>env_save_outcome := (\<lambda>n. OpenRaises)\<rparr> = env" by (simp add: env_def)
  have ok: "run_view (generate_llmtxt (env\<lparr>env_save_outcome := (\<lambda>n. WriteCompletes)\<rparr>) 1)
      = (True,
         [\<lparr>pr_number = 7, pr_title = ''t'', pr_comment_count = 1, pr_review_comments = Some []\<rparr>],
         True, Some ([], ''''), Some ''# Guide'', ([], 0, 0, {7}))"
    by (simp add: run_view_def core_def generate_llmtxt_def read_existing_def restore_def
          discover_def finish_def analyse_def submit_def handle_result_def try_save_def
          save_checkpoint_def snapshot_def initial_state_def unprocessed_prs_def
          generate_llmtxt_guidelines_def strip_guide Let_def env_def)
  from checkpoint_save_failure_tolerated [where env = env and outcomes = "\<lambda>n. OpenRaises" and limit = 1] h
  have v: "run_view (generate_llmtxt env 1)
      = run_view (generate_llmtxt (env\<lparr>env_save_outcome := (\<lambda>n. WriteCompletes)\<rparr>) 1)"
    and l: "st_log (try_save env (snapshot [] (initial_state env) None)
                 ''Error saving checkpoint'' (initial_state env))
         = st_log (initial_state env) @ [''Error saving checkpoint'']"
    unfolding e by blast+
  from v ok have "returned (generate_llmtxt env 1)"
    and "output_written (generate_llmtxt env 1) = Some ''# Guide''"
    and "st_processed_pr_ids (final_state (generate_llmtxt env 1)) = {7}"
    by (simp_all add: run_view_def core_def)
  moreover from l have "st_log (try_save env (snapshot [] (initial_state env) None)
                 ''Error saving checkpoint'' (initial_state env))
         = [''Error saving checkpoint'']"
    by (simp add: initial_state_def env_def)
  ultimately show ?thesis
    using h unfolding Let_def env_def by blast
qed

end
